theory Spec2Isabelle
  imports Main "HOL-Library.Finite_Map" "HOL-Library.Sublist"
begin

section \<open>Attribute types, paths, values and diagnostics\<close>

text \<open>
  Modelled from the spec: the values of the Go interface \<^verbatim>\<open>attr.Type\<close>, whose
  implementations (package \<^verbatim>\<open>types\<close>) are not among the sources. Section 3 lists the
  variants Bool, String, Int64, Float64, ListOf, SetOf, MapOf and ObjectOf (field names
  unique) and says that two types are \<^verbatim>\<open>Equal\<close> iff they are the same variant with
  recursively equal parameters. An object's \<^verbatim>\<open>AttrTypes\<close> is a Go map that is only
  written by key and compared, so it is a finite map and \<^verbatim>\<open>Equal\<close> is HOL equality.
  \<open>NilType\<close> is the nil interface value, which \<^verbatim>\<open>GetType()\<close> of a legacy
  \<^verbatim>\<open>tfsdk.Attribute\<close> can return.
\<close>

datatype attr_type =
    NilType
  | BoolType
  | StringType
  | Int64Type
  | Float64Type
  | ListType attr_type
  | SetType attr_type
  | MapType attr_type
  | ObjectType "(string, attr_type) fmap"

text \<open>
  A path step. \<^verbatim>\<open>tftypes.AttributePathStep\<close> has the four kinds \<^verbatim>\<open>AttributeName\<close>,
  \<^verbatim>\<open>ElementKeyInt\<close>, \<^verbatim>\<open>ElementKeyString\<close> and \<^verbatim>\<open>ElementKeyValue\<close>; the framework's
  \<^verbatim>\<open>path.Path\<close> has the same four (\<^verbatim>\<open>AtName\<close>, \<^verbatim>\<open>AtListIndex\<close>, \<^verbatim>\<open>AtMapKey\<close>,
  \<^verbatim>\<open>AtSetValue\<close>). The type of the value that identifies a set element is a parameter.
\<close>

datatype 'v step =
    AttributeName string
  | ElementKeyInt int
  | ElementKeyString string
  | ElementKeyValue 'v

datatype tristate = Known | Null | Unknown

datatype severity = SeverityError | SeverityWarning

text \<open>\<^verbatim>\<open>fwschema.NestingMode\<close>, with \<^verbatim>\<open>NestingModeUnknown\<close> as its zero value.\<close>

datatype nesting_mode =
    NestingModeUnknown
  | NestingModeSingle
  | NestingModeList
  | NestingModeSet
  | NestingModeMap

text \<open>
  Modelled from the spec: the values of the Go interface \<^verbatim>\<open>attr.Value\<close> and the
  diagnostics of package \<^verbatim>\<open>diag\<close>, neither of which is among the sources. A value is
  in exactly one of the three states known, null, unknown (section 2), and it may
  support the capability a nesting mode requires (section 4.5, steps 1 and 2):
  \<open>ToListValue ds es\<close> is a value implementing
  \<^verbatim>\<open>types.ListValuable\<close> whose conversion returns the diagnostics \<open>ds\<close> and a list with
  elements \<open>es\<close>; likewise for sets and maps; \<open>ToObjectValue ds st\<close> converts to an
  object in state \<open>st\<close>. A diagnostic is severity, path, summary and detail (section 3).
  A detail is kept as the fragments its format string joins: literal text, the rendering
  of a path (\<^verbatim>\<open>%s\<close> of a path), the Go type name of a value (\<^verbatim>\<open>%T\<close>) and the rendering
  of a nesting mode (\<^verbatim>\<open>%v\<close>).
\<close>

datatype attr_value = Value tristate conversion
and conversion =
    NotCollection
  | ToListValue "diagnostic list" "attr_value list"
  | ToSetValue "diagnostic list" "attr_value list"
  | ToMapValue "diagnostic list" "(string \<times> attr_value) list"
  | ToObjectValue "diagnostic list" tristate
and diagnostic =
  Diagnostic severity "attr_value step list" string "fragment list"
and fragment =
    Text string
  | PathString "attr_value step list"
  | GoType "attr_value option"
  | ModeString nesting_mode

type_synonym path = "attr_value step list"

fun Severity :: "diagnostic \<Rightarrow> severity" where
  "Severity (Diagnostic sev p summary detail) = sev"

fun IsNull :: "attr_value \<Rightarrow> bool" where
  "IsNull (Value st c) = (st = Null)"

fun IsUnknown :: "attr_value \<Rightarrow> bool" where
  "IsUnknown (Value st c) = (st = Unknown)"

text \<open>
  Modelled from the spec: \<^verbatim>\<open>Diagnostics.HasError\<close>, \<^verbatim>\<open>AddAttributeError\<close> and
  \<^verbatim>\<open>AddAttributeWarning\<close> of package \<^verbatim>\<open>diag\<close>, which is not among the sources.
  Section 3 makes the diagnostics an ordered, append-only sequence of severity, path,
  summary and detail, so adding is appending at the end; a diagnostic list has an
  error when one of its members has severity error.
\<close>

definition HasError :: "diagnostic list \<Rightarrow> bool" where
  "HasError diags = (\<exists>d \<in> set diags. Severity d = SeverityError)"

definition AddAttributeError ::
  "path \<Rightarrow> string \<Rightarrow> fragment list \<Rightarrow> diagnostic list \<Rightarrow> diagnostic list" where
  "AddAttributeError p summary detail diags = diags @ [Diagnostic SeverityError p summary detail]"

definition AddAttributeWarning ::
  "path \<Rightarrow> string \<Rightarrow> fragment list \<Rightarrow> diagnostic list \<Rightarrow> diagnostic list" where
  "AddAttributeWarning p summary detail diags = diags @ [Diagnostic SeverityWarning p summary detail]"

definition AtName :: "string \<Rightarrow> path \<Rightarrow> path" where
  "AtName name p = p @ [AttributeName name]"

definition AtListIndex :: "int \<Rightarrow> path \<Rightarrow> path" where
  "AtListIndex idx p = p @ [ElementKeyInt idx]"

definition AtSetValue :: "attr_value \<Rightarrow> path \<Rightarrow> path" where
  "AtSetValue v p = p @ [ElementKeyValue v]"

definition AtMapKey :: "string \<Rightarrow> path \<Rightarrow> path" where
  "AtMapKey k p = p @ [ElementKeyString k]"

section \<open>Schema, attributes and blocks\<close>

text \<open>
  \<^verbatim>\<open>tfsdk.ValidateAttributeRequest\<close>. \<open>Config\<close> stands for \<^verbatim>\<open>req.Config\<close> through the
  one operation the validation performs on it, \<^verbatim>\<open>ValueAtPath\<close> of package
  \<^verbatim>\<open>fwschemadata\<close> (not among the sources): the value at a path and the diagnostics of
  the lookup. \<open>AttributeConfig\<close> is \<open>None\<close> while the field is unset.
\<close>

record ValidateAttributeRequest =
  AttributePath :: path
  AttributePathExpression :: path
  AttributeConfig :: "attr_value option"
  Config :: "path \<Rightarrow> attr_value \<times> diagnostic list"

text \<open>
  Modelled from the spec: a provider-defined validator,
  \<^verbatim>\<open>validator.Validate(ctx, req, resp)\<close>, whose interface is not among the sources.
  Section 6 makes it an opaque callable that is given the request and returns
  diagnostics, and section 3 makes the accumulator append-only; the function gets the
  request and the diagnostics accumulated so far and returns the diagnostics it adds.
\<close>

type_synonym validator = "ValidateAttributeRequest \<Rightarrow> diagnostic list \<Rightarrow> diagnostic list"

text \<open>
  \<^verbatim>\<open>NestedAttributeObject\<close> of nested_attribute_object.go: the Go map \<^verbatim>\<open>Attributes\<close>
  and the optional \<^verbatim>\<open>CustomType\<close>. A Go map that the code ranges over is an
  association list with distinct keys; the order of the list is the order in which one
  \<^verbatim>\<open>range\<close> visits the keys, which Go leaves open, and \<open>map_of\<close> is the lookup.
\<close>

datatype 'a nested_attribute_object =
  NestedAttributeObject (Attributes: "(string \<times> 'a) list") (CustomType: "attr_type option")

text \<open>
  The Go interface \<^verbatim>\<open>fwschema.Attribute\<close> with its optional facets, as the values its
  methods return. \<open>is_tfsdk_Attribute\<close> says that the dynamic type is the legacy struct
  \<^verbatim>\<open>tfsdk.Attribute\<close>; \<open>AttributeWithValidators\<close> is \<open>None\<close> when the attribute does not
  implement \<^verbatim>\<open>fwxschema.AttributeWithValidators\<close>, else its \<^verbatim>\<open>GetValidators()\<close>;
  \<open>NestedAttribute\<close> is \<open>None\<close> when it does not implement \<^verbatim>\<open>fwschema.NestedAttribute\<close>,
  else its nesting mode and nested object.
\<close>

datatype attribute = Attribute
  (is_tfsdk_Attribute: bool)
  (GetType: attr_type)
  (IsRequired: bool)
  (IsOptional: bool)
  (IsComputed: bool)
  (GetDeprecationMessage: string)
  (AttributeWithValidators: "validator list option")
  (NestedAttribute: "(nesting_mode \<times> attribute nested_attribute_object) option")

definition GetNestingMode :: "attribute \<Rightarrow> nesting_mode" where
  "GetNestingMode a =
     (case NestedAttribute a of None \<Rightarrow> NestingModeUnknown | Some (nm, obj) \<Rightarrow> nm)"

definition GetAttributes :: "attribute \<Rightarrow> (string \<times> attribute) list" where
  "GetAttributes a =
     (case NestedAttribute a of None \<Rightarrow> [] | Some (nm, obj) \<Rightarrow> Attributes obj)"

text \<open>
  The Go interface \<^verbatim>\<open>Block\<close> (it embeds \<^verbatim>\<open>fwschema.Block\<close>, whose implementations are
  not among the sources), as the values of its methods \<^verbatim>\<open>Type()\<close>,
  \<^verbatim>\<open>GetNestingMode()\<close>, \<^verbatim>\<open>GetAttributes()\<close> and \<^verbatim>\<open>GetBlocks()\<close>.
\<close>

datatype block = Block
  (Block_Type: attr_type)
  (Block_GetNestingMode: nesting_mode)
  (Block_GetAttributes: "(string \<times> attribute) list")
  (Block_GetBlocks: "(string \<times> block) list")

record schema =
  Schema_Attributes :: "(string \<times> attribute) list"
  Blocks :: "(string \<times> block) list"
  Description :: string
  MarkdownDescription :: string
  DeprecationMessage :: string

text \<open>
  What a walk can hold (Go's \<^verbatim>\<open>interface{}\<close>): the dynamic kinds the type switches of
  \<^verbatim>\<open>AttributeAtTerraformPath\<close> and \<^verbatim>\<open>TypeAtTerraformPath\<close> tell apart, and \<open>NOther\<close> with
  its Go type name for any other value.
\<close>

datatype node =
    NSchema schema
  | NAttribute attribute
  | NBlock block
  | NType attr_type
  | NUnderlyingAttributes "(string \<times> attribute) list"
  | NNestedBlock block
  | NNestedAttributeObject "attribute nested_attribute_object"
  | NOther string

text \<open>
  Go errors. \<open>ErrStillRemains remaining err\<close> is
  \<^verbatim>\<open>fmt.Errorf("%v still remains in the path: %w", remaining, err)\<close>; the two
  unexpected-type errors keep the value whose type \<^verbatim>\<open>%T\<close> prints; \<open>ErrStep\<close> is an
  error of a stepper that is not among the sources.
\<close>

datatype 'v error =
    ErrPathInsideAtomicAttribute
  | ErrPathIsBlock
  | ErrCannotApplyStepToSchema "'v step"
  | ErrCouldNotFindAttributeOrBlock string
  | ErrCannotApplyToNestedAttributeObject "'v step"
  | ErrNoAttributeOnNestedAttributeObject string
  | ErrStep string
  | ErrStillRemains "'v step list" "'v error"
  | ErrAttributeAtUnexpectedType node
  | ErrTypeAtUnexpectedType node

section \<open>Path stepping and resolution (schema.go, nested_attribute_object.go)\<close>

definition Schema_ApplyTerraform5AttributePathStep ::
  "schema \<Rightarrow> 'v step \<Rightarrow> 'v error + node" where
  "Schema_ApplyTerraform5AttributePathStep s step =
     (case step of
        AttributeName attrName \<Rightarrow>
          (case map_of (Schema_Attributes s) attrName of
             Some a \<Rightarrow> Inr (NAttribute a)
           | None \<Rightarrow>
               (case map_of (Blocks s) attrName of
                  Some b \<Rightarrow> Inr (NBlock b)
                | None \<Rightarrow> Inl (ErrCouldNotFindAttributeOrBlock attrName)))
      | _ \<Rightarrow> Inl (ErrCannotApplyStepToSchema step))"

definition NestedAttributeObject_ApplyTerraform5AttributePathStep ::
  "attribute nested_attribute_object \<Rightarrow> 'v step \<Rightarrow> 'v error + node" where
  "NestedAttributeObject_ApplyTerraform5AttributePathStep obj step =
     (case step of
        AttributeName name \<Rightarrow>
          (case map_of (Attributes obj) name of
             None \<Rightarrow> Inl (ErrNoAttributeOnNestedAttributeObject name)
           | Some a \<Rightarrow> Inr (NAttribute a))
      | _ \<Rightarrow> Inl (ErrCannotApplyToNestedAttributeObject step))"

text \<open>
  One step of a walk. The schema and the nested attribute object step as the sources
  say; the steppers of the other kinds (attributes, blocks, types) are not among the
  sources and are the parameter \<open>ext\<close>.
\<close>

fun ApplyStep :: "(node \<Rightarrow> 'v step \<Rightarrow> 'v error + node) \<Rightarrow> node \<Rightarrow> 'v step \<Rightarrow> 'v error + node" where
  "ApplyStep ext (NSchema s) step = Schema_ApplyTerraform5AttributePathStep s step"
| "ApplyStep ext (NNestedAttributeObject obj) step =
     NestedAttributeObject_ApplyTerraform5AttributePathStep obj step"
| "ApplyStep ext n step = ext n step"

text \<open>
  \<^verbatim>\<open>tftypes.WalkAttributePath\<close> of the library terraform-plugin-go: with no step left it
  returns the value it holds; otherwise it applies the next step and goes on with the
  result, or stops at the first step that fails and returns the value it holds, the
  path that remains (the failing step first) and the error.
\<close>

fun WalkAttributePath ::
  "(node \<Rightarrow> 'v step \<Rightarrow> 'v error + node) \<Rightarrow> node \<Rightarrow> 'v step list
     \<Rightarrow> node \<times> 'v step list \<times> 'v error option" where
  "WalkAttributePath ext n [] = (n, [], None)"
| "WalkAttributePath ext n (step # rest) =
     (case ApplyStep ext n step of
        Inl err \<Rightarrow> (n, step # rest, Some err)
      | Inr next \<Rightarrow> WalkAttributePath ext next rest)"

definition AttributeAtTerraformPath ::
  "(node \<Rightarrow> 'v step \<Rightarrow> 'v error + node) \<Rightarrow> schema \<Rightarrow> 'v step list \<Rightarrow> 'v error + attribute" where
  "AttributeAtTerraformPath ext s p =
     (case WalkAttributePath ext (NSchema s) p of
        (res, remaining, Some err) \<Rightarrow> Inl (ErrStillRemains remaining err)
      | (res, remaining, None) \<Rightarrow>
          (case res of
             NType t \<Rightarrow> Inl ErrPathInsideAtomicAttribute
           | NUnderlyingAttributes attrs \<Rightarrow> Inl ErrPathInsideAtomicAttribute
           | NNestedBlock b \<Rightarrow> Inl ErrPathInsideAtomicAttribute
           | NAttribute r \<Rightarrow> Inr r
           | NBlock b \<Rightarrow> Inl ErrPathIsBlock
           | _ \<Rightarrow> Inl (ErrAttributeAtUnexpectedType res)))"

text \<open>The loop \<^verbatim>\<open>for name, x := range m { attrTypes[name] = f(x) }\<close>.\<close>

fun collect_types ::
  "('a \<Rightarrow> attr_type) \<Rightarrow> (string \<times> 'a) list \<Rightarrow> (string, attr_type) fmap \<Rightarrow> (string, attr_type) fmap" where
  "collect_types f [] attrTypes = attrTypes"
| "collect_types f ((name, x) # rest) attrTypes = collect_types f rest (fmupd name (f x) attrTypes)"

definition Schema_Type :: "schema \<Rightarrow> attr_type" where
  "Schema_Type s =
     ObjectType (collect_types Block_Type (Blocks s)
       (collect_types GetType (Schema_Attributes s) fmempty))"

definition NestedAttributeObject_Type :: "attribute nested_attribute_object \<Rightarrow> attr_type" where
  "NestedAttributeObject_Type obj =
     (case CustomType obj of
        Some t \<Rightarrow> t
      | None \<Rightarrow> ObjectType (collect_types GetType (Attributes obj) fmempty))"

text \<open>
  Modelled from the spec: \<^verbatim>\<open>fwschema.UnderlyingAttributes.Type()\<close>, which is not among
  the sources. Section 4.3 calls it the nested object's synthesized type, the object
  type of the children's types.
\<close>

definition UnderlyingAttributes_Type :: "(string \<times> attribute) list \<Rightarrow> attr_type" where
  "UnderlyingAttributes_Type attrs = ObjectType (collect_types GetType attrs fmempty)"

definition TypeAtTerraformPath ::
  "(node \<Rightarrow> 'v step \<Rightarrow> 'v error + node) \<Rightarrow> schema \<Rightarrow> 'v step list \<Rightarrow> 'v error + attr_type" where
  "TypeAtTerraformPath ext s p =
     (case WalkAttributePath ext (NSchema s) p of
        (rawType, remaining, Some err) \<Rightarrow> Inl (ErrStillRemains remaining err)
      | (rawType, remaining, None) \<Rightarrow>
          (case rawType of
             NType typ \<Rightarrow> Inr typ
           | NUnderlyingAttributes typ \<Rightarrow> Inr (UnderlyingAttributes_Type typ)
           | NAttribute typ \<Rightarrow> Inr (GetType typ)
           | NNestedBlock typ \<Rightarrow> Inr (Block_Type typ)
           | NBlock typ \<Rightarrow> Inr (Block_Type typ)
           | NSchema typ \<Rightarrow> Inr (Schema_Type typ)
           | _ \<Rightarrow> Inl (ErrTypeAtUnexpectedType rawType)))"

text \<open>
  \<^verbatim>\<open>NestedAttributeObject.Equal\<close>. The loop over \<^verbatim>\<open>o.Attributes\<close> is \<open>Equal_range\<close>;
  \<^verbatim>\<open>len\<close> of a Go map is the number of its keys. \<^verbatim>\<open>Equal\<close> of the attribute interface
  is implemented outside the sources and is the parameter \<open>attribute_Equal\<close>.
\<close>

fun Equal_range ::
  "(attribute \<Rightarrow> attribute \<Rightarrow> bool) \<Rightarrow> (string \<times> attribute) list \<Rightarrow> (string \<times> attribute) list \<Rightarrow> bool" where
  "Equal_range attribute_Equal [] other = True"
| "Equal_range attribute_Equal ((name, oAttribute) # rest) other =
     (case map_of other name of
        None \<Rightarrow> False
      | Some otherAttribute \<Rightarrow>
          if \<not> attribute_Equal oAttribute otherAttribute then False
          else Equal_range attribute_Equal rest other)"

definition NestedAttributeObject_Equal ::
  "(attribute \<Rightarrow> attribute \<Rightarrow> bool) \<Rightarrow> attribute nested_attribute_object
     \<Rightarrow> attribute nested_attribute_object \<Rightarrow> bool" where
  "NestedAttributeObject_Equal attribute_Equal obj other =
     (if NestedAttributeObject_Type obj \<noteq> NestedAttributeObject_Type other then False
      else if length (Attributes obj) \<noteq> length (Attributes other) then False
      else Equal_range attribute_Equal (Attributes obj) (Attributes other))"

section \<open>Attribute validation (fwserver)\<close>

text \<open>The loop over \<^verbatim>\<open>attributeWithValidators.GetValidators()\<close>.\<close>

fun Validators_range ::
  "validator list \<Rightarrow> ValidateAttributeRequest \<Rightarrow> diagnostic list \<Rightarrow> diagnostic list" where
  "Validators_range [] req diags = diags"
| "Validators_range (v # vs) req diags = Validators_range vs req (diags @ v req diags)"

text \<open>
  The type assertions \<^verbatim>\<open>req.AttributeConfig.(types.ListValuable)\<close> and its three
  siblings, each with the conversion that follows it: \<open>None\<close> when the assertion fails,
  else the diagnostics of the conversion and what the validation reads of the result
  (the elements of a list or set, the keys of a map in the order the \<^verbatim>\<open>range\<close> visits
  them, the state of an object).
\<close>

fun as_ListValuable :: "attr_value option \<Rightarrow> (diagnostic list \<times> attr_value list) option" where
  "as_ListValuable (Some (Value st (ToListValue ds es))) = Some (ds, es)"
| "as_ListValuable _ = None"

fun as_SetValuable :: "attr_value option \<Rightarrow> (diagnostic list \<times> attr_value list) option" where
  "as_SetValuable (Some (Value st (ToSetValue ds es))) = Some (ds, es)"
| "as_SetValuable _ = None"

fun as_MapValuable :: "attr_value option \<Rightarrow> (diagnostic list \<times> string list) option" where
  "as_MapValuable (Some (Value st (ToMapValue ds kvs))) = Some (ds, map fst kvs)"
| "as_MapValuable _ = None"

fun as_ObjectValuable :: "attr_value option \<Rightarrow> (diagnostic list \<times> tristate) option" where
  "as_ObjectValuable (Some (Value st (ToObjectValue ds ost))) = Some (ds, ost)"
| "as_ObjectValuable _ = None"

text \<open>
  The error of a failed assertion: \<^verbatim>\<open>fmt.Errorf("unknown attribute value type (%T) for
  nesting mode (%T) at path: %s", req.AttributeConfig, nm, req.AttributePath)\<close> after the
  sentence that names the expected interface.
\<close>

definition InvalidValueType ::
  "string \<Rightarrow> ValidateAttributeRequest \<Rightarrow> diagnostic list \<Rightarrow> diagnostic list" where
  "InvalidValueType valuable req diags =
     AddAttributeError (AttributePath req)
       ''Attribute Validation Error Invalid Value Type''
       [Text ''A type that implements types.'', Text valuable,
        Text '' is expected here. Report this to the provider developer:\<newline>\<newline>'',
        Text ''unknown attribute value type ('', GoType (AttributeConfig req),
        Text '') for nesting mode (fwschema.NestingMode) at path: '',
        PathString (AttributePath req)]
       diags"

text \<open>The detail texts of the diagnostics of \<^verbatim>\<open>AttributeValidate\<close>, in the order of the code.\<close>

definition MustDefineDetail :: "fragment list" where
  "MustDefineDetail =
     [Text ''Attribute must define either Attributes or Type. This is always a problem with the provider and should be reported to the provider developer.'']"

definition CannotDefineBothDetail :: "fragment list" where
  "CannotDefineBothDetail =
     [Text ''Attribute cannot define both Attributes and Type. This is always a problem with the provider and should be reported to the provider developer.'']"

definition MissingDefinitionDetail :: "fragment list" where
  "MissingDefinitionDetail =
     [Text ''Attribute missing Required, Optional, or Computed definition. This is always a problem with the provider and should be reported to the provider developer.'']"

definition ReadOnlyDetail :: "fragment list" where
  "ReadOnlyDetail =
     [Text ''Cannot set value for this attribute as the provider has marked it as read-only. Remove the configuration line setting the value.\<newline>\<newline>'',
      Text ''Refer to the provider documentation or contact the provider developers for additional information about configurable and read-only attributes that are supported.'']"

definition MissingRequiredDetail :: "path \<Rightarrow> fragment list" where
  "MissingRequiredDetail p =
     [Text ''Must set a configuration value for the '', PathString p,
      Text '' attribute as the provider has marked it as required.\<newline>\<newline>'',
      Text ''Refer to the provider documentation or contact the provider developers for additional information about configurable attributes that are required.'']"

definition CannotWalkDetail :: "nesting_mode \<Rightarrow> path \<Rightarrow> fragment list" where
  "CannotWalkDetail nm p =
     [Text ''Attribute validation cannot walk schema. Report this to the provider developer:\<newline>\<newline>'',
      Text ''unknown attribute validation nesting mode (fwschema.NestingMode: '',
      ModeString nm, Text '') at path: '', PathString p]"

text \<open>
  \<^verbatim>\<open>AttributeValidate\<close> and \<^verbatim>\<open>AttributeValidateNestedAttributes\<close>, with
  \<^verbatim>\<open>resp.Diagnostics\<close> passed in and returned. \<open>NestedAttributes_range\<close> is the inner loop
  \<^verbatim>\<open>for nestedName, nestedAttr := range nestedAttribute.GetAttributes()\<close> at the element
  whose path and path expression it is given; \<open>Elements_range\<close> is the outer loop of the
  list, set and map modes, given for each element the function that extends a path to
  it (\<open>AtListIndex idx\<close>, \<open>AtSetValue value\<close> or \<open>AtMapKey key\<close>).
\<close>

function
  AttributeValidate ::
    "attribute \<Rightarrow> ValidateAttributeRequest \<Rightarrow> diagnostic list \<Rightarrow> diagnostic list"
and AttributeValidateNestedAttributes ::
    "attribute \<Rightarrow> ValidateAttributeRequest \<Rightarrow> diagnostic list \<Rightarrow> diagnostic list"
and Elements_range ::
    "(string \<times> attribute) list \<Rightarrow> (path \<Rightarrow> path) list \<Rightarrow> ValidateAttributeRequest
       \<Rightarrow> diagnostic list \<Rightarrow> diagnostic list"
and NestedAttributes_range ::
    "(string \<times> attribute) list \<Rightarrow> path \<Rightarrow> path \<Rightarrow> (path \<Rightarrow> attr_value \<times> diagnostic list)
       \<Rightarrow> diagnostic list \<Rightarrow> diagnostic list"
where
  "AttributeValidate a req diags =
     (if is_tfsdk_Attribute a \<and> GetType a = NilType then
        AddAttributeError (AttributePath req) ''Invalid Attribute Definition''
          MustDefineDetail diags
      else if is_tfsdk_Attribute a \<and> length (GetAttributes a) > 0
                \<and> GetNestingMode a = NestingModeUnknown then
        AddAttributeError (AttributePath req) ''Invalid Attribute Definition''
          CannotDefineBothDetail diags
      else if \<not> IsRequired a \<and> \<not> IsOptional a \<and> \<not> IsComputed a then
        AddAttributeError (AttributePath req) ''Invalid Attribute Definition''
          MissingDefinitionDetail diags
      else
        (case Config req (AttributePath req) of
           (attributeConfig, ds) \<Rightarrow>
             if HasError ds then diags @ ds
             else
               let diags1 = diags @ ds;
                   diags2 =
                     (if IsComputed a \<and> \<not> IsOptional a \<and> \<not> IsNull attributeConfig then
                        AddAttributeError (AttributePath req)
                          ''Invalid Configuration for Read-Only Attribute''
                          ReadOnlyDetail diags1
                      else diags1);
                   diags3 =
                     (if IsRequired a \<and> IsNull attributeConfig then
                        AddAttributeError (AttributePath req)
                          ''Missing Configuration for Required Attribute''
                          (MissingRequiredDetail (AttributePath req)) diags2
                      else diags2);
                   req1 = req\<lparr>AttributeConfig := Some attributeConfig\<rparr>;
                   diags4 =
                     (case AttributeWithValidators a of
                        Some validators \<Rightarrow> Validators_range validators req1 diags3
                      | None \<Rightarrow> diags3);
                   diags5 = AttributeValidateNestedAttributes a req1 diags4
               in
                 if GetDeprecationMessage a \<noteq> [] \<and> \<not> IsNull attributeConfig
                      \<and> \<not> IsUnknown attributeConfig then
                   AddAttributeWarning (AttributePath req) ''Attribute Deprecated''
                     [Text (GetDeprecationMessage a)] diags5
                 else diags5))"
| "AttributeValidateNestedAttributes a req diags =
     (if NestedAttribute a = None then diags
      else if is_tfsdk_Attribute a \<and> GetNestingMode a = NestingModeUnknown then diags
      else
        (case GetNestingMode a of
           NestingModeList \<Rightarrow>
             (case as_ListValuable (AttributeConfig req) of
                None \<Rightarrow> InvalidValueType ''ListValuable'' req diags
              | Some (ds, es) \<Rightarrow>
                  if HasError (diags @ ds) then diags @ ds
                  else Elements_range (GetAttributes a)
                         (map (\<lambda>idx. AtListIndex (int idx)) [0..<length es]) req (diags @ ds))
         | NestingModeSet \<Rightarrow>
             (case as_SetValuable (AttributeConfig req) of
                None \<Rightarrow> InvalidValueType ''SetValuable'' req diags
              | Some (ds, es) \<Rightarrow>
                  if HasError (diags @ ds) then diags @ ds
                  else Elements_range (GetAttributes a) (map AtSetValue es) req (diags @ ds))
         | NestingModeMap \<Rightarrow>
             (case as_MapValuable (AttributeConfig req) of
                None \<Rightarrow> InvalidValueType ''MapValuable'' req diags
              | Some (ds, keys) \<Rightarrow>
                  if HasError (diags @ ds) then diags @ ds
                  else Elements_range (GetAttributes a) (map AtMapKey keys) req (diags @ ds))
         | NestingModeSingle \<Rightarrow>
             (case as_ObjectValuable (AttributeConfig req) of
                None \<Rightarrow> InvalidValueType ''ObjectValuable'' req diags
              | Some (ds, ost) \<Rightarrow>
                  if HasError (diags @ ds) then diags @ ds
                  else if ost = Null \<or> ost = Unknown then diags @ ds
                  else NestedAttributes_range (GetAttributes a) (AttributePath req)
                         (AttributePathExpression req) (Config req) (diags @ ds))
         | NestingModeUnknown \<Rightarrow>
             AddAttributeError (AttributePath req) ''Attribute Validation Error''
               (CannotWalkDetail (GetNestingMode a) (AttributePath req)) diags))"
| "Elements_range attrs [] req diags = diags"
| "Elements_range attrs (at # ats) req diags =
     Elements_range attrs ats req
       (NestedAttributes_range attrs (at (AttributePath req))
          (at (AttributePathExpression req)) (Config req) diags)"
| "NestedAttributes_range [] p e cfg diags = diags"
| "NestedAttributes_range ((nestedName, nestedAttr) # rest) p e cfg diags =
     NestedAttributes_range rest p e cfg
       (AttributeValidate nestedAttr
          \<lparr>AttributePath = AtName nestedName p, AttributePathExpression = AtName nestedName e,
           AttributeConfig = None, Config = cfg\<rparr>
          diags)"
  by pat_completeness auto
termination
proof -
  have sz: "size_list (size_prod (\<lambda>_. 0) size) (GetAttributes a) < size a" for a
  proof (cases a)
    case (Attribute tf ty rq op cp dm vs ne)
    show ?thesis
    proof (cases ne)
      case None
      with Attribute show ?thesis by (simp add: GetAttributes_def)
    next
      case (Some mo)
      obtain nm obj where mo: "mo = (nm, obj)" by (cases mo)
      obtain attrs ct where obj: "obj = NestedAttributeObject attrs ct" by (cases obj)
      from Attribute Some mo obj show ?thesis by (simp add: GetAttributes_def)
    qed
  qed
  have sz2: "Suc (2 * size_list (size_prod (\<lambda>_. 0) size) (GetAttributes a)) < 2 * size a" for a
    using sz [of a] by arith
  show ?thesis
    by (relation "measures
          [\<lambda>x. case x of
                  Inl (Inl (a, req, diags)) \<Rightarrow> 2 * size a + 1
                | Inl (Inr (a, req, diags)) \<Rightarrow> 2 * size a
                | Inr (Inl (attrs, ats, req, diags)) \<Rightarrow>
                    2 * size_list (size_prod (\<lambda>_. 0) size) attrs + 1
                | Inr (Inr (attrs, p, e, cfg, diags)) \<Rightarrow>
                    2 * size_list (size_prod (\<lambda>_. 0) size) attrs,
           \<lambda>x. case x of
                  Inr (Inl (attrs, ats, req, diags)) \<Rightarrow> length ats
                | _ \<Rightarrow> 0]")
       (auto simp: sz sz2)
qed

declare AttributeValidate.simps [simp del]
declare AttributeValidateNestedAttributes.simps [simp del]

text \<open>
  The value \<^verbatim>\<open>attributeConfig\<close> that \<^verbatim>\<open>AttributeValidate\<close> holds once it is past the
  lookup: \<open>None\<close> when it returned before, on one of the three definition errors or on
  an error of the lookup.
\<close>

definition ExtractedConfig :: "attribute \<Rightarrow> ValidateAttributeRequest \<Rightarrow> attr_value option" where
  "ExtractedConfig a req =
     (if is_tfsdk_Attribute a \<and> GetType a = NilType then None
      else if is_tfsdk_Attribute a \<and> length (GetAttributes a) > 0
                \<and> GetNestingMode a = NestingModeUnknown then None
      else if \<not> IsRequired a \<and> \<not> IsOptional a \<and> \<not> IsComputed a then None
      else
        (case Config req (AttributePath req) of
           (attributeConfig, ds) \<Rightarrow> if HasError ds then None else Some attributeConfig))"

section \<open>Steppers outside the sources\<close>

text \<open>
  Modelled from the spec: the \<^verbatim>\<open>ApplyTerraform5AttributePathStep\<close> methods of types,
  attributes and blocks, which are not among the sources. Section 4.4 allows an
  \<^verbatim>\<open>AttributeName\<close> step only against a schema, a block or an object-shaped node, and
  a collection element step only against a node of the matching collection kind;
  section 9 names the holders that a step into an element of a nested attribute or of
  a block yields. A leaf attribute steps as its type does.
\<close>

fun Type_ApplyTerraform5AttributePathStep :: "attr_type \<Rightarrow> 'v step \<Rightarrow> 'v error + node" where
  "Type_ApplyTerraform5AttributePathStep (ListType t) (ElementKeyInt i) = Inr (NType t)"
| "Type_ApplyTerraform5AttributePathStep (SetType t) (ElementKeyValue v) = Inr (NType t)"
| "Type_ApplyTerraform5AttributePathStep (MapType t) (ElementKeyString k) = Inr (NType t)"
| "Type_ApplyTerraform5AttributePathStep (ObjectType attrTypes) (AttributeName name) =
     (case fmlookup attrTypes name of
        Some t \<Rightarrow> Inr (NType t)
      | None \<Rightarrow> Inl (ErrStep ''undefined attribute name in object type''))"
| "Type_ApplyTerraform5AttributePathStep t step = Inl (ErrStep ''cannot apply step to type'')"

definition lookup_attribute :: "(string \<times> attribute) list \<Rightarrow> string \<Rightarrow> 'v error + node" where
  "lookup_attribute attrs name =
     (case map_of attrs name of
        Some a \<Rightarrow> Inr (NAttribute a)
      | None \<Rightarrow> Inl (ErrStep ''no such attribute''))"

definition lookup_attribute_or_block :: "block \<Rightarrow> string \<Rightarrow> 'v error + node" where
  "lookup_attribute_or_block b name =
     (case map_of (Block_GetAttributes b) name of
        Some a \<Rightarrow> Inr (NAttribute a)
      | None \<Rightarrow>
          (case map_of (Block_GetBlocks b) name of
             Some c \<Rightarrow> Inr (NBlock c)
           | None \<Rightarrow> Inl (ErrStep ''no such attribute or block'')))"

fun Attribute_ApplyTerraform5AttributePathStep :: "attribute \<Rightarrow> 'v step \<Rightarrow> 'v error + node" where
  "Attribute_ApplyTerraform5AttributePathStep a step =
     (case NestedAttribute a of
        None \<Rightarrow> Type_ApplyTerraform5AttributePathStep (GetType a) step
      | Some (nm, obj) \<Rightarrow>
          (case (nm, step) of
             (NestingModeList, ElementKeyInt i) \<Rightarrow> Inr (NUnderlyingAttributes (Attributes obj))
           | (NestingModeSet, ElementKeyValue v) \<Rightarrow> Inr (NUnderlyingAttributes (Attributes obj))
           | (NestingModeMap, ElementKeyString k) \<Rightarrow> Inr (NUnderlyingAttributes (Attributes obj))
           | (NestingModeSingle, AttributeName name) \<Rightarrow> lookup_attribute (Attributes obj) name
           | _ \<Rightarrow> Inl (ErrStep ''cannot apply step to nested attribute'')))"

fun Block_ApplyTerraform5AttributePathStep :: "block \<Rightarrow> 'v step \<Rightarrow> 'v error + node" where
  "Block_ApplyTerraform5AttributePathStep b step =
     (case (Block_GetNestingMode b, step) of
        (NestingModeList, ElementKeyInt i) \<Rightarrow> Inr (NNestedBlock b)
      | (NestingModeSet, ElementKeyValue v) \<Rightarrow> Inr (NNestedBlock b)
      | (NestingModeSingle, AttributeName name) \<Rightarrow> lookup_attribute_or_block b name
      | _ \<Rightarrow> Inl (ErrStep ''cannot apply step to block''))"

fun steppers :: "node \<Rightarrow> 'v step \<Rightarrow> 'v error + node" where
  "steppers (NAttribute a) step = Attribute_ApplyTerraform5AttributePathStep a step"
| "steppers (NType t) step = Type_ApplyTerraform5AttributePathStep t step"
| "steppers (NBlock b) step = Block_ApplyTerraform5AttributePathStep b step"
| "steppers (NUnderlyingAttributes attrs) (AttributeName name) = lookup_attribute attrs name"
| "steppers (NNestedBlock b) (AttributeName name) = lookup_attribute_or_block b name"
| "steppers n step = Inl (ErrStep ''cannot apply step'')"

section \<open>Example schema, attributes and configuration\<close>

text \<open>
  Concrete data for the closed instances below: a schema with a list-of-strings
  attribute and a list block, a schema in which one name is both an attribute and a
  block, leaf attributes, a list-nested attribute with one required child, a
  single-nested attribute with two children in either order of iteration, and a
  configuration in which the single-nested object and its list are known and every
  other value is null.
\<close>

definition example_leaf :: attribute where
  "example_leaf = Attribute False (ListType StringType) False True False [] None None"

definition example_block :: block where
  "example_block = Block (ListType (ObjectType fmempty)) NestingModeList [] []"

definition example_schema :: schema where
  "example_schema =
     \<lparr>Schema_Attributes = [(''tags'', example_leaf)], Blocks = [(''rule'', example_block)],
      Description = [], MarkdownDescription = [], DeprecationMessage = []\<rparr>"

definition collision_schema :: schema where
  "collision_schema =
     \<lparr>Schema_Attributes = [(''x'', example_leaf)], Blocks = [(''x'', example_block)],
      Description = [], MarkdownDescription = [], DeprecationMessage = []\<rparr>"

definition required_leaf :: attribute where
  "required_leaf = Attribute False StringType True False False [] None None"

definition undefined_leaf :: attribute where
  "undefined_leaf = Attribute False StringType False False False [] None None"

definition deprecated_leaf :: attribute where
  "deprecated_leaf = Attribute False StringType False True False ''use y'' None None"

definition list_nested :: attribute where
  "list_nested =
     Attribute False (ListType (ObjectType (fmupd ''inner'' StringType fmempty)))
       False True False [] None
       (Some (NestingModeList, NestedAttributeObject [(''inner'', required_leaf)] None))"

definition single_nested :: attribute where
  "single_nested =
     Attribute False (ObjectType fmempty) False True False [] None
       (Some (NestingModeSingle,
          NestedAttributeObject [(''a'', required_leaf), (''b'', list_nested)] None))"

definition single_nested_swapped :: attribute where
  "single_nested_swapped =
     Attribute False (ObjectType fmempty) False True False [] None
       (Some (NestingModeSingle,
          NestedAttributeObject [(''b'', list_nested), (''a'', required_leaf)] None))"

definition example_config :: "path \<Rightarrow> attr_value \<times> diagnostic list" where
  "example_config p =
     (if p = [AttributeName ''p''] then (Value Known (ToObjectValue [] Known), [])
      else if p = [AttributeName ''p'', AttributeName ''b''] then
        (Value Known (ToListValue [] [Value Known (ToObjectValue [] Known)]), [])
      else if p = [AttributeName ''d''] then (Value Known NotCollection, [])
      else (Value Null NotCollection, []))"

definition example_request :: "path \<Rightarrow> ValidateAttributeRequest" where
  "example_request p =
     \<lparr>AttributePath = p, AttributePathExpression = p, AttributeConfig = None,
      Config = example_config\<rparr>"

definition object_ab :: "attribute nested_attribute_object" where
  "object_ab = NestedAttributeObject [(''a'', required_leaf), (''b'', example_leaf)] None"

definition object_ba :: "attribute nested_attribute_object" where
  "object_ba = NestedAttributeObject [(''b'', example_leaf), (''a'', required_leaf)] None"

definition same_type :: "attribute \<Rightarrow> attribute \<Rightarrow> bool" where
  "same_type a b = (GetType a = GetType b)"

text \<open>The diagnostic of the check for a required attribute, at a path.\<close>

definition MissingRequired :: "path \<Rightarrow> diagnostic" where
  "MissingRequired p =
     Diagnostic SeverityError p ''Missing Configuration for Required Attribute''
       (MissingRequiredDetail p)"

section \<open>Auxiliary lemmas\<close>

lemma collect_types_lookup:
  "distinct (map fst xs) \<Longrightarrow>
   fmlookup (collect_types f xs m) n =
     (case map_of xs n of Some x \<Rightarrow> Some (f x) | None \<Rightarrow> fmlookup m n)"
proof (induction xs arbitrary: m)
  case Nil
  then show ?case by simp
next
  case (Cons kx xs)
  obtain k x where kx: "kx = (k, x)" by (cases kx)
  from Cons.prems kx have d: "distinct (map fst xs)" and k: "k \<notin> fst ` set xs" by auto
  from k have none: "map_of xs k = None" by (simp add: map_of_eq_None_iff)
  show ?case using Cons.IH [OF d, of "fmupd k (f x) m"] kx none
    by (auto split: option.splits)
qed

lemma Equal_range_iff:
  "Equal_range eq xs other \<longleftrightarrow>
     (\<forall>(name, a) \<in> set xs. \<exists>b. map_of other name = Some b \<and> eq a b)"
  by (induction xs) (auto split: option.splits if_splits)

lemma NestedAttributeObject_Equal_characterisation:
  assumes "distinct (map fst (Attributes obj))" and "distinct (map fst (Attributes other))"
  shows "NestedAttributeObject_Equal eq obj other \<longleftrightarrow>
     NestedAttributeObject_Type obj = NestedAttributeObject_Type other
     \<and> fst ` set (Attributes obj) = fst ` set (Attributes other)
     \<and> (\<forall>name \<in> fst ` set (Attributes obj).
           \<exists>a b. map_of (Attributes obj) name = Some a
               \<and> map_of (Attributes other) name = Some b \<and> eq a b)"
    (is "?L \<longleftrightarrow> ?T \<and> ?K \<and> ?P")
proof -
  let ?xs = "Attributes obj" and ?ys = "Attributes other"
  have card_xs: "card (fst ` set ?xs) = length ?xs"
    using assms(1) by (metis distinct_card length_map set_map)
  have card_ys: "card (fst ` set ?ys) = length ?ys"
    using assms(2) by (metis distinct_card length_map set_map)
  have range_iff: "Equal_range eq ?xs ?ys \<longleftrightarrow>
      (\<forall>name \<in> fst ` set ?xs. \<exists>a b. map_of ?xs name = Some a \<and> map_of ?ys name = Some b \<and> eq a b)"
  proof
    assume R: "Equal_range eq ?xs ?ys"
    show "\<forall>name \<in> fst ` set ?xs. \<exists>a b. map_of ?xs name = Some a \<and> map_of ?ys name = Some b \<and> eq a b"
    proof
      fix name assume "name \<in> fst ` set ?xs"
      then obtain a where a: "(name, a) \<in> set ?xs" by auto
      with assms(1) have "map_of ?xs name = Some a" by simp
      moreover from R a have "\<exists>b. map_of ?ys name = Some b \<and> eq a b"
        unfolding Equal_range_iff by blast
      ultimately show "\<exists>a b. map_of ?xs name = Some a \<and> map_of ?ys name = Some b \<and> eq a b"
        by blast
    qed
  next
    assume P: "\<forall>name \<in> fst ` set ?xs. \<exists>a b. map_of ?xs name = Some a \<and> map_of ?ys name = Some b \<and> eq a b"
    show "Equal_range eq ?xs ?ys"
      unfolding Equal_range_iff
    proof (clarify)
      fix name a assume a: "(name, a) \<in> set ?xs"
      then have "name \<in> fst ` set ?xs" by (rule rev_image_eqI) simp
      with P obtain a' b where "map_of ?xs name = Some a'" "map_of ?ys name = Some b" "eq a' b"
        by blast
      moreover from a assms(1) have "map_of ?xs name = Some a" by simp
      ultimately show "\<exists>b. map_of ?ys name = Some b \<and> eq a b" by simp
    qed
  qed
  show ?thesis
  proof
    assume L: ?L
    then have T: ?T and len: "length ?xs = length ?ys" and R: "Equal_range eq ?xs ?ys"
      by (auto simp: NestedAttributeObject_Equal_def split: if_splits)
    from R have P: ?P by (simp only: range_iff)
    then have sub: "fst ` set ?xs \<subseteq> fst ` set ?ys"
      by (auto dest!: map_of_SomeD bspec intro: rev_image_eqI)
    have ?K
      by (rule card_subset_eq) (use sub card_xs card_ys len in auto)
    with T P show "?T \<and> ?K \<and> ?P" by blast
  next
    assume R: "?T \<and> ?K \<and> ?P"
    then have T: ?T and K: ?K and P: ?P by blast+
    from K have len: "length ?xs = length ?ys" using card_xs card_ys by metis
    from P have "Equal_range eq ?xs ?ys" by (simp only: range_iff)
    with T len show ?L by (simp add: NestedAttributeObject_Equal_def)
  qed
qed

lemma collect_types_cong:
  assumes "distinct (map fst xs)" and "distinct (map fst ys)" and "map_of xs = map_of ys"
  shows "collect_types f xs fmempty = collect_types f ys fmempty"
  by (rule fmap_ext) (simp add: collect_types_lookup assms)

lemma NestedAttributeObject_Type_cong:
  assumes "distinct (map fst (Attributes a))" and "distinct (map fst (Attributes b))"
    and "map_of (Attributes a) = map_of (Attributes b)" and "CustomType a = CustomType b"
  shows "NestedAttributeObject_Type a = NestedAttributeObject_Type b"
  using assms collect_types_cong [OF assms(1,2,3), of GetType]
  by (simp add: NestedAttributeObject_Type_def split: option.splits)

lemma keys_map_of: "fst ` set xs = dom (map_of xs)"
  by (simp add: dom_map_of_conv_image_fst)

lemma WalkAttributePath_error_remaining:
  "WalkAttributePath ext n q = (res, rem, Some err) \<Longrightarrow> rem \<noteq> []"
  by (induction ext n q rule: WalkAttributePath.induct) (auto split: sum.splits)

lemma Type_step_yields_type:
  "Type_ApplyTerraform5AttributePathStep t step = Inr n \<Longrightarrow> \<exists>t'. n = NType t'"
  by (induction t step rule: Type_ApplyTerraform5AttributePathStep.induct)
     (auto split: option.splits)

lemma Walk_from_type:
  "WalkAttributePath steppers (NType t) q = (res, rem, err) \<Longrightarrow> \<exists>t'. res = NType t'"
proof (induction q arbitrary: t)
  case Nil
  then show ?case by auto
next
  case (Cons step q)
  show ?case
  proof (cases "Type_ApplyTerraform5AttributePathStep t step")
    case (Inl e)
    with Cons.prems show ?thesis by auto
  next
    case (Inr n)
    then obtain t' where "n = NType t'" by (auto dest: Type_step_yields_type)
    with Cons Inr show ?thesis by auto
  qed
qed

lemma Validators_range_prefix: "prefix diags (Validators_range vs req diags)"
proof (induction vs arbitrary: diags)
  case Nil
  then show ?case by simp
next
  case (Cons v vs)
  have "prefix diags (diags @ v req diags)" by simp
  also have "prefix \<dots> (Validators_range vs req (diags @ v req diags))" by (rule Cons.IH)
  finally show ?case by simp
qed

lemma ExtractedConfig_SomeD:
  assumes "ExtractedConfig a req = Some v"
  shows "\<not> (is_tfsdk_Attribute a \<and> GetType a = NilType)"
    and "\<not> (is_tfsdk_Attribute a \<and> length (GetAttributes a) > 0
             \<and> GetNestingMode a = NestingModeUnknown)"
    and "\<not> (\<not> IsRequired a \<and> \<not> IsOptional a \<and> \<not> IsComputed a)"
    and "\<exists>ds. Config req (AttributePath req) = (v, ds) \<and> \<not> HasError ds"
  using assms by (auto simp: ExtractedConfig_def split: if_splits prod.splits)

lemma AttributeValidate_past_lookup:
  assumes "ExtractedConfig a req = Some v"
  shows "AttributeValidate a req diags =
     (let diags1 = diags @ snd (Config req (AttributePath req));
          diags2 =
            (if IsComputed a \<and> \<not> IsOptional a \<and> \<not> IsNull v then
               AddAttributeError (AttributePath req)
                 ''Invalid Configuration for Read-Only Attribute'' ReadOnlyDetail diags1
             else diags1);
          diags3 =
            (if IsRequired a \<and> IsNull v then
               AddAttributeError (AttributePath req)
                 ''Missing Configuration for Required Attribute''
                 (MissingRequiredDetail (AttributePath req)) diags2
             else diags2);
          req1 = req\<lparr>AttributeConfig := Some v\<rparr>;
          diags4 =
            (case AttributeWithValidators a of
               Some validators \<Rightarrow> Validators_range validators req1 diags3
             | None \<Rightarrow> diags3);
          diags5 = AttributeValidateNestedAttributes a req1 diags4
      in if GetDeprecationMessage a \<noteq> [] \<and> \<not> IsNull v \<and> \<not> IsUnknown v then
           AddAttributeWarning (AttributePath req) ''Attribute Deprecated''
             [Text (GetDeprecationMessage a)] diags5
         else diags5)"
proof -
  note n = ExtractedConfig_SomeD [OF assms]
  from n(4) obtain ds where cfg: "Config req (AttributePath req) = (v, ds)"
    and ne: "\<not> HasError ds" by blast
  show ?thesis
    by (subst AttributeValidate.simps)
       (simp only: n(1) n(2) n(3) if_False cfg prod.case ne snd_conv)
qed

lemma AttributeValidate_not_past_lookup:
  assumes "ExtractedConfig a req = None"
  shows "AttributeValidate a req diags =
     (if is_tfsdk_Attribute a \<and> GetType a = NilType then
        AddAttributeError (AttributePath req) ''Invalid Attribute Definition''
          MustDefineDetail diags
      else if is_tfsdk_Attribute a \<and> length (GetAttributes a) > 0
                \<and> GetNestingMode a = NestingModeUnknown then
        AddAttributeError (AttributePath req) ''Invalid Attribute Definition''
          CannotDefineBothDetail diags
      else if \<not> IsRequired a \<and> \<not> IsOptional a \<and> \<not> IsComputed a then
        AddAttributeError (AttributePath req) ''Invalid Attribute Definition''
          MissingDefinitionDetail diags
      else diags @ snd (Config req (AttributePath req)))"
  using assms
  by (subst AttributeValidate.simps)
     (auto simp: ExtractedConfig_def split: if_splits prod.splits)

text \<open>Validation only ever appends to the diagnostics it is given.\<close>

lemma validation_prefix:
  "prefix diags (AttributeValidate a req diags)"
  "prefix diags (AttributeValidateNestedAttributes a req diags)"
  "prefix diags (Elements_range attrs ats req diags)"
  "prefix diags (NestedAttributes_range attrs p e cfg diags)"
proof (induction a req diags and a req diags and attrs ats req diags and attrs p e cfg diags
    rule: AttributeValidate_AttributeValidateNestedAttributes_Elements_range_NestedAttributes_range.induct)
  case (1 a req diags)
  show ?case
  proof (cases "ExtractedConfig a req")
    case None
    show ?thesis
      unfolding AttributeValidate_not_past_lookup [OF None]
      by (simp add: AddAttributeError_def)
  next
    case (Some v)
    note n = ExtractedConfig_SomeD [OF Some]
    from n(4) obtain ds where cfg: "Config req (AttributePath req) = (v, ds)"
      and ne: "\<not> HasError ds" by blast
    define d1 where "d1 = diags @ ds"
    define d2 where "d2 =
      (if IsComputed a \<and> \<not> IsOptional a \<and> \<not> IsNull v then
         AddAttributeError (AttributePath req)
           ''Invalid Configuration for Read-Only Attribute'' ReadOnlyDetail d1
       else d1)"
    define d3 where "d3 =
      (if IsRequired a \<and> IsNull v then
         AddAttributeError (AttributePath req)
           ''Missing Configuration for Required Attribute''
           (MissingRequiredDetail (AttributePath req)) d2
       else d2)"
    define req1 where "req1 = req\<lparr>AttributeConfig := Some v\<rparr>"
    define d4 where "d4 =
      (case AttributeWithValidators a of
         None \<Rightarrow> d3
       | Some validators \<Rightarrow> Validators_range validators req1 d3)"
    define d5 where "d5 = AttributeValidateNestedAttributes a req1 d4"
    have ih: "prefix d4 d5"
      unfolding d5_def
      by (rule "1"[OF n(1) n(2) n(3) cfg[symmetric] ne d1_def d2_def d3_def req1_def d4_def])
    have "prefix diags d1" by (simp add: d1_def)
    also have "prefix d1 d2" by (simp add: d2_def AddAttributeError_def)
    also have "prefix d2 d3" by (simp add: d3_def AddAttributeError_def)
    also have "prefix d3 d4"
      by (cases "AttributeWithValidators a") (simp_all add: d4_def Validators_range_prefix)
    also note ih
    finally have p5: "prefix diags d5" .
    have out: "AttributeValidate a req diags =
        (if GetDeprecationMessage a \<noteq> [] \<and> \<not> IsNull v \<and> \<not> IsUnknown v then
           AddAttributeWarning (AttributePath req) ''Attribute Deprecated''
             [Text (GetDeprecationMessage a)] d5
         else d5)"
      unfolding AttributeValidate_past_lookup [OF Some]
      by (simp add: cfg Let_def d1_def d2_def d3_def d4_def d5_def req1_def
               split: option.splits)
    show ?thesis
      unfolding out using p5 by (simp add: AddAttributeWarning_def)
  qed
next
  case (2 a req diags)
  show ?case
  proof (cases "NestedAttribute a = None
      \<or> (is_tfsdk_Attribute a \<and> GetNestingMode a = NestingModeUnknown)")
    case True
    then show ?thesis
      by (subst AttributeValidateNestedAttributes.simps) auto
  next
    case False
    then have n1: "NestedAttribute a \<noteq> None"
      and n2: "\<not> (is_tfsdk_Attribute a \<and> GetNestingMode a = NestingModeUnknown)"
      by auto
    note ih = "2"[OF n1 n2]
    show ?thesis
    proof (cases "GetNestingMode a")
      case NestingModeUnknown
      with n1 n2 show ?thesis
        by (subst AttributeValidateNestedAttributes.simps) (simp add: AddAttributeError_def)
    next
      case NestingModeSingle
      show ?thesis
      proof (cases "as_ObjectValuable (AttributeConfig req)")
        case None
        with n1 n2 NestingModeSingle show ?thesis
          by (subst AttributeValidateNestedAttributes.simps)
             (simp add: InvalidValueType_def AddAttributeError_def)
      next
        case (Some r)
        obtain ds ost where r: "r = (ds, ost)" by (cases r)
        have "prefix diags (diags @ ds)" by simp
        moreover have "prefix (diags @ ds)
            (NestedAttributes_range (GetAttributes a) (AttributePath req)
               (AttributePathExpression req) (Config req) (diags @ ds))"
          if "\<not> HasError (diags @ ds)" "\<not> (ost = Null \<or> ost = Unknown)"
          using ih(1) [OF NestingModeSingle Some r[symmetric] that] .
        ultimately show ?thesis
          using n1 n2 NestingModeSingle Some r
          by (subst AttributeValidateNestedAttributes.simps)
             (auto dest: append_prefixD)
      qed
    next
      case NestingModeList
      show ?thesis
      proof (cases "as_ListValuable (AttributeConfig req)")
        case None
        with n1 n2 NestingModeList show ?thesis
          by (subst AttributeValidateNestedAttributes.simps)
             (simp add: InvalidValueType_def AddAttributeError_def)
      next
        case (Some r)
        obtain ds es where r: "r = (ds, es)" by (cases r)
        have "prefix diags (diags @ ds)" by simp
        moreover have "prefix (diags @ ds)
            (Elements_range (GetAttributes a)
               (map (\<lambda>idx. AtListIndex (int idx)) [0..<length es]) req (diags @ ds))"
          if "\<not> HasError (diags @ ds)"
          using ih(2) [OF NestingModeList Some r[symmetric] that] .
        ultimately show ?thesis
          using n1 n2 NestingModeList Some r
          by (subst AttributeValidateNestedAttributes.simps)
             (auto dest: append_prefixD)
      qed
    next
      case NestingModeSet
      show ?thesis
      proof (cases "as_SetValuable (AttributeConfig req)")
        case None
        with n1 n2 NestingModeSet show ?thesis
          by (subst AttributeValidateNestedAttributes.simps)
             (simp add: InvalidValueType_def AddAttributeError_def)
      next
        case (Some r)
        obtain ds es where r: "r = (ds, es)" by (cases r)
        have "prefix diags (diags @ ds)" by simp
        moreover have "prefix (diags @ ds)
            (Elements_range (GetAttributes a) (map AtSetValue es) req (diags @ ds))"
          if "\<not> HasError (diags @ ds)"
          using ih(3) [OF NestingModeSet Some r[symmetric] that] .
        ultimately show ?thesis
          using n1 n2 NestingModeSet Some r
          by (subst AttributeValidateNestedAttributes.simps)
             (auto dest: append_prefixD)
      qed
    next
      case NestingModeMap
      show ?thesis
      proof (cases "as_MapValuable (AttributeConfig req)")
        case None
        with n1 n2 NestingModeMap show ?thesis
          by (subst AttributeValidateNestedAttributes.simps)
             (simp add: InvalidValueType_def AddAttributeError_def)
      next
        case (Some r)
        obtain ds ks where r: "r = (ds, ks)" by (cases r)
        have "prefix diags (diags @ ds)" by simp
        moreover have "prefix (diags @ ds)
            (Elements_range (GetAttributes a) (map AtMapKey ks) req (diags @ ds))"
          if "\<not> HasError (diags @ ds)"
          using ih(4) [OF NestingModeMap Some r[symmetric] that] .
        ultimately show ?thesis
          using n1 n2 NestingModeMap Some r
          by (subst AttributeValidateNestedAttributes.simps)
             (auto dest: append_prefixD)
      qed
    qed
  qed
next
  case (3 attrs req diags)
  then show ?case by simp
next
  case (4 attrs at ats req diags)
  then show ?case by (auto intro: prefix_order.trans)
next
  case (5 p e cfg diags)
  then show ?case by simp
next
  case (6 nestedName nestedAttr rest p e cfg diags)
  then show ?case by (auto intro: prefix_order.trans)
qed

section \<open>Path resolution\<close>

text \<open>
  Claim C2. For every schema and every path, \<^verbatim>\<open>AttributeAtTerraformPath\<close> returns an
  attribute, without error, exactly when the walk ends at that attribute; it returns
  \<^verbatim>\<open>ErrPathInsideAtomicAttribute\<close> exactly when the walk ends at a bare type, an
  underlying-attributes holder or a nested-block holder; it returns \<^verbatim>\<open>ErrPathIsBlock\<close>
  exactly when the walk ends at a block; it returns the unexpected-type error, which
  is none of the former, exactly when the walk ends at anything else; and it returns
  the error of what remains of the path exactly when the walk fails. The steppers
  outside the sources are arbitrary.
\<close>

theorem AttributeAtTerraformPath_outcomes:
  "(AttributeAtTerraformPath ext s p = Inr a \<longleftrightarrow>
      (\<exists>remaining. WalkAttributePath ext (NSchema s) p = (NAttribute a, remaining, None)))
   \<and> (AttributeAtTerraformPath ext s p = Inl ErrPathInsideAtomicAttribute \<longleftrightarrow>
      (\<exists>res remaining. WalkAttributePath ext (NSchema s) p = (res, remaining, None)
         \<and> ((\<exists>t. res = NType t) \<or> (\<exists>attrs. res = NUnderlyingAttributes attrs)
               \<or> (\<exists>b. res = NNestedBlock b))))
   \<and> (AttributeAtTerraformPath ext s p = Inl ErrPathIsBlock \<longleftrightarrow>
      (\<exists>b remaining. WalkAttributePath ext (NSchema s) p = (NBlock b, remaining, None)))
   \<and> (AttributeAtTerraformPath ext s p = Inl (ErrAttributeAtUnexpectedType n) \<longleftrightarrow>
      (\<exists>remaining. WalkAttributePath ext (NSchema s) p = (n, remaining, None))
         \<and> ((\<exists>x. n = NSchema x) \<or> (\<exists>obj. n = NNestedAttributeObject obj)
               \<or> (\<exists>name. n = NOther name)))
   \<and> (AttributeAtTerraformPath ext s p = Inl (ErrStillRemains rem err) \<longleftrightarrow>
      (\<exists>res. WalkAttributePath ext (NSchema s) p = (res, rem, Some err)))"
proof -
  obtain res remaining e where w: "WalkAttributePath ext (NSchema s) p = (res, remaining, e)"
    by (cases "WalkAttributePath ext (NSchema s) p")
  show ?thesis
  proof (cases e)
    case (Some err')
    with w show ?thesis by (simp add: AttributeAtTerraformPath_def)
  next
    case None
    with w show ?thesis
      by (cases res) (auto simp: AttributeAtTerraformPath_def)
  qed
qed

theorem AttributeAtTerraformPath_outcomes_witness:
  "AttributeAtTerraformPath steppers example_schema [AttributeName ''tags'' :: unit step]
     = Inr example_leaf
   \<and> AttributeAtTerraformPath steppers example_schema
       [AttributeName ''tags'' :: unit step, ElementKeyInt 0]
     = Inl ErrPathInsideAtomicAttribute
   \<and> AttributeAtTerraformPath steppers example_schema [AttributeName ''rule'' :: unit step]
     = Inl ErrPathIsBlock
   \<and> AttributeAtTerraformPath steppers example_schema ([] :: unit step list)
     = Inl (ErrAttributeAtUnexpectedType (NSchema example_schema))
   \<and> AttributeAtTerraformPath steppers example_schema [AttributeName ''none'' :: unit step]
     = Inl (ErrStillRemains [AttributeName ''none'']
              (ErrCouldNotFindAttributeOrBlock ''none''))"
proof -
  have w1: "WalkAttributePath steppers (NSchema example_schema) [AttributeName ''tags'' :: unit step]
      = (NAttribute example_leaf, [], None)"
    by (simp add: example_schema_def Schema_ApplyTerraform5AttributePathStep_def)
  have w2: "WalkAttributePath steppers (NSchema example_schema)
      [AttributeName ''tags'' :: unit step, ElementKeyInt 0] = (NType StringType, [], None)"
    by (simp add: example_schema_def example_leaf_def Schema_ApplyTerraform5AttributePathStep_def)
  have w3: "WalkAttributePath steppers (NSchema example_schema) [AttributeName ''rule'' :: unit step]
      = (NBlock example_block, [], None)"
    by (simp add: example_schema_def Schema_ApplyTerraform5AttributePathStep_def)
  have w4: "WalkAttributePath steppers (NSchema example_schema) ([] :: unit step list)
      = (NSchema example_schema, [], None)"
    by simp
  have w5: "WalkAttributePath steppers (NSchema example_schema) [AttributeName ''none'' :: unit step]
      = (NSchema example_schema, [AttributeName ''none''],
         Some (ErrCouldNotFindAttributeOrBlock ''none''))"
    by (simp add: example_schema_def Schema_ApplyTerraform5AttributePathStep_def)
  note t1 = AttributeAtTerraformPath_outcomes
      [where ext = steppers and s = example_schema and a = example_leaf
         and p = "[AttributeName ''tags'' :: unit step]"]
  note t2 = AttributeAtTerraformPath_outcomes
      [where ext = steppers and s = example_schema
         and p = "[AttributeName ''tags'' :: unit step, ElementKeyInt 0]"]
  note t3 = AttributeAtTerraformPath_outcomes
      [where ext = steppers and s = example_schema
         and p = "[AttributeName ''rule'' :: unit step]"]
  note t4 = AttributeAtTerraformPath_outcomes
      [where ext = steppers and s = example_schema and n = "NSchema example_schema"
         and p = "[] :: unit step list"]
  note t5 = AttributeAtTerraformPath_outcomes
      [where ext = steppers and s = example_schema
         and p = "[AttributeName ''none'' :: unit step]"
         and rem = "[AttributeName ''none'']"
         and err = "ErrCouldNotFindAttributeOrBlock ''none''"]
  have c1: "AttributeAtTerraformPath steppers example_schema
      [AttributeName ''tags'' :: unit step] = Inr example_leaf"
    using t1 [THEN conjunct1] unfolding w1 by simp
  have c2: "AttributeAtTerraformPath steppers example_schema
      [AttributeName ''tags'' :: unit step, ElementKeyInt 0] = Inl ErrPathInsideAtomicAttribute"
    using t2 [THEN conjunct2, THEN conjunct1] unfolding w2 by simp
  have c3: "AttributeAtTerraformPath steppers example_schema
      [AttributeName ''rule'' :: unit step] = Inl ErrPathIsBlock"
    using t3 [THEN conjunct2, THEN conjunct2, THEN conjunct1] unfolding w3 by simp
  have c4: "AttributeAtTerraformPath steppers example_schema ([] :: unit step list)
      = Inl (ErrAttributeAtUnexpectedType (NSchema example_schema))"
    using t4 [THEN conjunct2, THEN conjunct2, THEN conjunct2, THEN conjunct1]
    unfolding w4 by simp
  have c5: "AttributeAtTerraformPath steppers example_schema
      [AttributeName ''none'' :: unit step]
      = Inl (ErrStillRemains [AttributeName ''none''] (ErrCouldNotFindAttributeOrBlock ''none''))"
    using t5 [THEN conjunct2, THEN conjunct2, THEN conjunct2, THEN conjunct2]
    unfolding w5 by simp
  from c1 c2 c3 c4 c5 show ?thesis by (intro conjI)
qed

text \<open>
  Claim C3. Whenever the walk of a path ends at a bare type, \<^verbatim>\<open>AttributeAtTerraformPath\<close>
  returns \<^verbatim>\<open>ErrPathInsideAtomicAttribute\<close> while \<^verbatim>\<open>TypeAtTerraformPath\<close> succeeds with
  that type; \<^verbatim>\<open>TypeAtTerraformPath\<close> fails only when a step of the walk could not be
  applied (some of the path remains) or the walk ended at something that is not a bare
  type. With the steppers of section 4.4 of the specification, a path that goes one or
  more steps inside a leaf attribute either ends at a type, where the two results are
  the ones above, or has a step that the leaf's shape does not admit, where both fail
  with the error of the remaining path.
\<close>

theorem TypeAtTerraformPath_inside_atomic:
  "(WalkAttributePath ext (NSchema s) p = (NType t, remaining, None) \<longrightarrow>
      AttributeAtTerraformPath ext s p = Inl ErrPathInsideAtomicAttribute
      \<and> TypeAtTerraformPath ext s p = Inr t)
   \<and> (TypeAtTerraformPath ext s p = Inl e \<longrightarrow>
        (\<exists>res rem err. WalkAttributePath ext (NSchema s) p = (res, rem, Some err)
            \<and> rem \<noteq> [] \<and> e = ErrStillRemains rem err)
        \<or> (\<exists>res rem. WalkAttributePath ext (NSchema s) p = (res, rem, None)
            \<and> (\<forall>t. res \<noteq> NType t)))
   \<and> (map_of (Schema_Attributes s) name = Some a \<and> NestedAttribute a = None \<and> inside \<noteq> [] \<longrightarrow>
        (\<exists>t'. AttributeAtTerraformPath steppers s (AttributeName name # inside)
                = Inl ErrPathInsideAtomicAttribute
             \<and> TypeAtTerraformPath steppers s (AttributeName name # inside) = Inr t')
        \<or> (\<exists>rem err. rem \<noteq> []
             \<and> AttributeAtTerraformPath steppers s (AttributeName name # inside)
                = Inl (ErrStillRemains rem err)
             \<and> TypeAtTerraformPath steppers s (AttributeName name # inside)
                = Inl (ErrStillRemains rem err)))"
proof (intro conjI impI)
  assume "WalkAttributePath ext (NSchema s) p = (NType t, remaining, None)"
  then show "AttributeAtTerraformPath ext s p = Inl ErrPathInsideAtomicAttribute"
    and "TypeAtTerraformPath ext s p = Inr t"
    by (simp_all add: AttributeAtTerraformPath_def TypeAtTerraformPath_def)
next
  assume "TypeAtTerraformPath ext s p = Inl e"
  then show "(\<exists>res rem err. WalkAttributePath ext (NSchema s) p = (res, rem, Some err)
            \<and> rem \<noteq> [] \<and> e = ErrStillRemains rem err)
        \<or> (\<exists>res rem. WalkAttributePath ext (NSchema s) p = (res, rem, None)
            \<and> (\<forall>t. res \<noteq> NType t))"
    unfolding TypeAtTerraformPath_def
    by (auto split: prod.splits option.splits node.splits dest: WalkAttributePath_error_remaining)
next
  assume h: "map_of (Schema_Attributes s) name = Some a \<and> NestedAttribute a = None \<and> inside \<noteq> []"
  then obtain step rest where inside: "inside = step # rest" by (cases inside) auto
  let ?p = "AttributeName name # inside"
  show "(\<exists>t'. AttributeAtTerraformPath steppers s ?p = Inl ErrPathInsideAtomicAttribute
             \<and> TypeAtTerraformPath steppers s ?p = Inr t')
        \<or> (\<exists>rem err. rem \<noteq> []
             \<and> AttributeAtTerraformPath steppers s ?p = Inl (ErrStillRemains rem err)
             \<and> TypeAtTerraformPath steppers s ?p = Inl (ErrStillRemains rem err))"
  proof (cases "Type_ApplyTerraform5AttributePathStep (GetType a) step")
    case (Inl err)
    with h inside have "WalkAttributePath steppers (NSchema s) ?p = (NAttribute a, inside, Some err)"
      by (simp add: Schema_ApplyTerraform5AttributePathStep_def)
    with h show ?thesis
      by (simp add: AttributeAtTerraformPath_def TypeAtTerraformPath_def)
  next
    case (Inr n)
    then obtain t1 where n: "n = NType t1" by (auto dest: Type_step_yields_type)
    obtain res rem err where w: "WalkAttributePath steppers (NType t1) rest = (res, rem, err)"
      by (cases "WalkAttributePath steppers (NType t1) rest")
    then obtain t2 where res: "res = NType t2" by (auto dest: Walk_from_type)
    from h inside Inr n w
    have walk: "WalkAttributePath steppers (NSchema s) ?p = (NType t2, rem, err)"
      by (simp add: Schema_ApplyTerraform5AttributePathStep_def res)
    show ?thesis
    proof (cases err)
      case None
      with walk show ?thesis
        by (simp add: AttributeAtTerraformPath_def TypeAtTerraformPath_def)
    next
      case (Some e')
      with walk have "rem \<noteq> []"
        using WalkAttributePath_error_remaining [of steppers "NSchema s" ?p "NType t2" rem e']
        by blast
      with walk Some show ?thesis
        by (simp add: AttributeAtTerraformPath_def TypeAtTerraformPath_def)
    qed
  qed
qed

theorem TypeAtTerraformPath_inside_atomic_witness:
  "WalkAttributePath steppers (NSchema example_schema)
      [AttributeName ''tags'' :: unit step, ElementKeyInt 0] = (NType StringType, [], None)
   \<and> AttributeAtTerraformPath steppers example_schema
       [AttributeName ''tags'' :: unit step, ElementKeyInt 0]
     = Inl ErrPathInsideAtomicAttribute
   \<and> TypeAtTerraformPath steppers example_schema
       [AttributeName ''tags'' :: unit step, ElementKeyInt 0]
     = Inr StringType
   \<and> TypeAtTerraformPath steppers example_schema
       [AttributeName ''tags'' :: unit step, ElementKeyString ''k'']
     = Inl (ErrStillRemains [ElementKeyString ''k''] (ErrStep ''cannot apply step to type''))
   \<and> WalkAttributePath steppers (NSchema example_schema)
       [AttributeName ''tags'' :: unit step, ElementKeyString ''k'']
     = (NAttribute example_leaf, [ElementKeyString ''k''],
        Some (ErrStep ''cannot apply step to type''))
   \<and> map_of (Schema_Attributes example_schema) ''tags'' = Some example_leaf
   \<and> NestedAttribute example_leaf = None
   \<and> AttributeAtTerraformPath steppers example_schema
       [AttributeName ''tags'' :: unit step, ElementKeyString ''k'']
     = Inl (ErrStillRemains [ElementKeyString ''k''] (ErrStep ''cannot apply step to type''))"
proof -
  let ?in = "[AttributeName ''tags'' :: unit step, ElementKeyInt 0]"
  let ?out = "[AttributeName ''tags'' :: unit step, ElementKeyString ''k'']"
  have w: "WalkAttributePath steppers (NSchema example_schema) ?in = (NType StringType, [], None)"
    by (simp add: example_schema_def example_leaf_def Schema_ApplyTerraform5AttributePathStep_def)
  have w': "WalkAttributePath steppers (NSchema example_schema) ?out
     = (NAttribute example_leaf, [ElementKeyString ''k''],
        Some (ErrStep ''cannot apply step to type''))"
    by (simp add: example_schema_def example_leaf_def Schema_ApplyTerraform5AttributePathStep_def)
  have f: "TypeAtTerraformPath steppers example_schema ?out
     = Inl (ErrStillRemains [ElementKeyString ''k''] (ErrStep ''cannot apply step to type''))"
    unfolding TypeAtTerraformPath_def w' by simp
  have l: "map_of (Schema_Attributes example_schema) ''tags'' = Some example_leaf"
    "NestedAttribute example_leaf = None"
    by (simp_all add: example_schema_def example_leaf_def)
  note t1 = TypeAtTerraformPath_inside_atomic
    [of steppers example_schema ?in StringType "[]"]
  note t2 = TypeAtTerraformPath_inside_atomic
    [of steppers example_schema ?out StringType "[]"
        "ErrStillRemains [ElementKeyString ''k''] (ErrStep ''cannot apply step to type'')"
        "''tags''" example_leaf "[ElementKeyString ''k'']"]
  from t1 w have c1: "AttributeAtTerraformPath steppers example_schema ?in
      = Inl ErrPathInsideAtomicAttribute \<and> TypeAtTerraformPath steppers example_schema ?in
      = Inr StringType" by blast
  from t2 l have "(\<exists>t'. AttributeAtTerraformPath steppers example_schema ?out
                = Inl ErrPathInsideAtomicAttribute
             \<and> TypeAtTerraformPath steppers example_schema ?out = Inr t')
        \<or> (\<exists>rem err. rem \<noteq> []
             \<and> AttributeAtTerraformPath steppers example_schema ?out
                = Inl (ErrStillRemains rem err)
             \<and> TypeAtTerraformPath steppers example_schema ?out
                = Inl (ErrStillRemains rem err))"
    by blast
  then have "AttributeAtTerraformPath steppers example_schema ?out
      = Inl (ErrStillRemains [ElementKeyString ''k''] (ErrStep ''cannot apply step to type''))"
  proof (elim disjE exE conjE)
    fix t' assume "TypeAtTerraformPath steppers example_schema ?out = Inr t'"
    with f show ?thesis by simp
  next
    fix rem err
    assume a: "AttributeAtTerraformPath steppers example_schema ?out
        = Inl (ErrStillRemains rem err)"
      and "TypeAtTerraformPath steppers example_schema ?out = Inl (ErrStillRemains rem err)"
    with f have "rem = [ElementKeyString ''k'']" "err = ErrStep ''cannot apply step to type''"
      by simp_all
    with a show ?thesis by simp
  qed
  with c1 w w' f l show ?thesis by blast
qed

text \<open>
  Claim C4. For every path that \<^verbatim>\<open>AttributeAtTerraformPath\<close> resolves to an attribute,
  \<^verbatim>\<open>TypeAtTerraformPath\<close> on the same path succeeds and returns that attribute's
  \<^verbatim>\<open>GetType()\<close>.
\<close>

theorem TypeAtTerraformPath_of_resolved_attribute:
  "AttributeAtTerraformPath ext s p = Inr a \<Longrightarrow> TypeAtTerraformPath ext s p = Inr (GetType a)"
  unfolding AttributeAtTerraformPath_def TypeAtTerraformPath_def
  by (auto split: prod.splits option.splits node.splits)

theorem TypeAtTerraformPath_of_resolved_attribute_witness:
  "AttributeAtTerraformPath steppers example_schema [AttributeName ''tags'' :: unit step]
     = Inr example_leaf
   \<and> TypeAtTerraformPath steppers example_schema [AttributeName ''tags'' :: unit step]
     = Inr (ListType StringType)"
proof -
  have a: "AttributeAtTerraformPath steppers example_schema [AttributeName ''tags'' :: unit step]
     = Inr example_leaf"
    by (simp add: AttributeAtTerraformPath_def example_schema_def
          Schema_ApplyTerraform5AttributePathStep_def)
  from TypeAtTerraformPath_of_resolved_attribute [OF a] a show ?thesis
    by (simp add: example_leaf_def)
qed

text \<open>
  Claim C9. When one name is a key of both the \<^verbatim>\<open>Attributes\<close> and the \<^verbatim>\<open>Blocks\<close> map of
  a schema, \<^verbatim>\<open>ApplyTerraform5AttributePathStep\<close> returns the attribute of that name,
  while \<^verbatim>\<open>Type()\<close> maps the name to the type of the block.
\<close>

theorem Schema_name_collision:
  assumes "map_of (Schema_Attributes s) name = Some a"
    and "map_of (Blocks s) name = Some b"
    and "distinct (map fst (Blocks s))"
  shows "Schema_ApplyTerraform5AttributePathStep s (AttributeName name) = Inr (NAttribute a)
    \<and> (\<exists>attrTypes. Schema_Type s = ObjectType attrTypes
          \<and> fmlookup attrTypes name = Some (Block_Type b))"
  using assms
  by (simp add: Schema_ApplyTerraform5AttributePathStep_def Schema_Type_def collect_types_lookup)

theorem Schema_name_collision_witness:
  "map_of (Schema_Attributes collision_schema) ''x'' = Some example_leaf
   \<and> map_of (Blocks collision_schema) ''x'' = Some example_block
   \<and> distinct (map fst (Blocks collision_schema))
   \<and> Schema_ApplyTerraform5AttributePathStep collision_schema (AttributeName ''x'' :: unit step)
       = Inr (NAttribute example_leaf)
   \<and> (\<exists>attrTypes. Schema_Type collision_schema = ObjectType attrTypes
         \<and> fmlookup attrTypes ''x'' = Some (ListType (ObjectType fmempty)))"
proof -
  have h: "map_of (Schema_Attributes collision_schema) ''x'' = Some example_leaf"
    "map_of (Blocks collision_schema) ''x'' = Some example_block"
    "distinct (map fst (Blocks collision_schema))"
    by (simp_all add: collision_schema_def)
  from Schema_name_collision [OF h, where ?'a = unit] h show ?thesis
    by (simp add: example_block_def)
qed

section \<open>Equality of nested attribute objects\<close>

text \<open>
  Claim C5. \<^verbatim>\<open>o.Equal(other)\<close> is true if and only if the two derived types are equal,
  the two \<^verbatim>\<open>Attributes\<close> maps have the same set of names, and under every name the two
  attributes are \<^verbatim>\<open>Equal\<close>. The result does not depend on the order in which the
  maps are iterated: any two lists that hold the same maps give the same result.
\<close>

theorem NestedAttributeObject_Equal_iff:
  assumes "distinct (map fst (Attributes obj))" and "distinct (map fst (Attributes other))"
  shows "(NestedAttributeObject_Equal eq obj other \<longleftrightarrow>
            NestedAttributeObject_Type obj = NestedAttributeObject_Type other
            \<and> fst ` set (Attributes obj) = fst ` set (Attributes other)
            \<and> (\<forall>name \<in> fst ` set (Attributes obj).
                  \<exists>a b. map_of (Attributes obj) name = Some a
                      \<and> map_of (Attributes other) name = Some b \<and> eq a b))
         \<and> (\<forall>obj' other'.
               distinct (map fst (Attributes obj')) \<and> distinct (map fst (Attributes other'))
               \<and> map_of (Attributes obj') = map_of (Attributes obj)
               \<and> CustomType obj' = CustomType obj
               \<and> map_of (Attributes other') = map_of (Attributes other)
               \<and> CustomType other' = CustomType other
               \<longrightarrow> NestedAttributeObject_Equal eq obj' other'
                     = NestedAttributeObject_Equal eq obj other)"
proof (intro conjI allI impI)
  show "NestedAttributeObject_Equal eq obj other \<longleftrightarrow>
            NestedAttributeObject_Type obj = NestedAttributeObject_Type other
            \<and> fst ` set (Attributes obj) = fst ` set (Attributes other)
            \<and> (\<forall>name \<in> fst ` set (Attributes obj).
                  \<exists>a b. map_of (Attributes obj) name = Some a
                      \<and> map_of (Attributes other) name = Some b \<and> eq a b)"
    by (rule NestedAttributeObject_Equal_characterisation [OF assms])
next
  fix obj' other'
  assume h: "distinct (map fst (Attributes obj')) \<and> distinct (map fst (Attributes other'))
               \<and> map_of (Attributes obj') = map_of (Attributes obj)
               \<and> CustomType obj' = CustomType obj
               \<and> map_of (Attributes other') = map_of (Attributes other)
               \<and> CustomType other' = CustomType other"
  then have d: "distinct (map fst (Attributes obj'))" "distinct (map fst (Attributes other'))"
    and m1: "map_of (Attributes obj') = map_of (Attributes obj)"
    and m2: "map_of (Attributes other') = map_of (Attributes other)"
    and c1: "CustomType obj' = CustomType obj" and c2: "CustomType other' = CustomType other"
    by blast+
  have t1: "NestedAttributeObject_Type obj' = NestedAttributeObject_Type obj"
    by (rule NestedAttributeObject_Type_cong [OF d(1) assms(1) m1 c1])
  have t2: "NestedAttributeObject_Type other' = NestedAttributeObject_Type other"
    by (rule NestedAttributeObject_Type_cong [OF d(2) assms(2) m2 c2])
  show "NestedAttributeObject_Equal eq obj' other' = NestedAttributeObject_Equal eq obj other"
    unfolding NestedAttributeObject_Equal_characterisation [OF d]
      NestedAttributeObject_Equal_characterisation [OF assms]
      keys_map_of m1 m2 t1 t2 ..
qed

theorem NestedAttributeObject_Equal_iff_witness:
  "distinct (map fst (Attributes object_ab)) \<and> distinct (map fst (Attributes object_ba))
   \<and> map_of (Attributes object_ab) = map_of (Attributes object_ba)
   \<and> NestedAttributeObject_Equal same_type object_ab object_ba
   \<and> NestedAttributeObject_Equal same_type object_ab object_ab"
proof -
  have d: "distinct (map fst (Attributes object_ab))" "distinct (map fst (Attributes object_ba))"
    by (simp_all add: object_ab_def object_ba_def)
  have m: "map_of (Attributes object_ab) = map_of (Attributes object_ba)"
    by (rule ext) (simp add: object_ab_def object_ba_def)
  have c: "CustomType object_ab = CustomType object_ba"
    by (simp add: object_ab_def object_ba_def)
  have ty: "NestedAttributeObject_Type object_ab = NestedAttributeObject_Type object_ba"
    by (auto simp: NestedAttributeObject_Type_def object_ab_def object_ba_def intro!: fmap_ext)
  have keys: "fst ` set (Attributes object_ab) = fst ` set (Attributes object_ba)"
    by (auto simp: object_ab_def object_ba_def)
  have pair: "\<forall>name \<in> fst ` set (Attributes object_ab).
      \<exists>a b. map_of (Attributes object_ab) name = Some a
          \<and> map_of (Attributes object_ba) name = Some b \<and> same_type a b"
    by (auto simp: object_ab_def object_ba_def same_type_def)
  note t = NestedAttributeObject_Equal_iff [OF d, of same_type]
  from t ty keys pair
  have e1: "NestedAttributeObject_Equal same_type object_ab object_ba" by blast
  from t d m c
  have "NestedAttributeObject_Equal same_type object_ab object_ab
      = NestedAttributeObject_Equal same_type object_ab object_ba" by blast
  with e1 have e2: "NestedAttributeObject_Equal same_type object_ab object_ab" by simp
  from d m e1 e2 show ?thesis by blast
qed

section \<open>Attribute validation\<close>

text \<open>
  Claim C6. For an attribute that is neither required nor optional nor computed,
  \<^verbatim>\<open>AttributeValidate\<close> appends one error with summary ``Invalid Attribute Definition''
  at the attribute's path and nothing else, whatever the configuration, the value
  already held by the request, the validators and the nested attributes are: no value is
  looked up, no validator runs and nothing is descended into.
\<close>

theorem AttributeValidate_missing_definition:
  assumes "\<not> IsRequired a" and "\<not> IsOptional a" and "\<not> IsComputed a"
  shows "\<exists>detail. \<forall>e cv cfg.
     AttributeValidate a
       \<lparr>AttributePath = p, AttributePathExpression = e, AttributeConfig = cv, Config = cfg\<rparr>
       diags
     = diags @ [Diagnostic SeverityError p ''Invalid Attribute Definition'' detail]"
proof -
  define detail where "detail =
    (if is_tfsdk_Attribute a \<and> GetType a = NilType then MustDefineDetail
     else if is_tfsdk_Attribute a \<and> length (GetAttributes a) > 0
               \<and> GetNestingMode a = NestingModeUnknown then CannotDefineBothDetail
     else MissingDefinitionDetail)"
  have "AttributeValidate a
       \<lparr>AttributePath = p, AttributePathExpression = e, AttributeConfig = cv, Config = cfg\<rparr>
       diags
     = diags @ [Diagnostic SeverityError p ''Invalid Attribute Definition'' detail]"
    for e cv cfg
    using assms
    by (subst AttributeValidate.simps) (simp add: detail_def AddAttributeError_def)
  then show ?thesis by blast
qed

theorem AttributeValidate_missing_definition_witness:
  "\<not> IsRequired undefined_leaf \<and> \<not> IsOptional undefined_leaf \<and> \<not> IsComputed undefined_leaf
   \<and> (\<exists>detail. AttributeValidate undefined_leaf (example_request [AttributeName ''d'']) []
         = [Diagnostic SeverityError [AttributeName ''d''] ''Invalid Attribute Definition'' detail])"
proof -
  have h: "\<not> IsRequired undefined_leaf" "\<not> IsOptional undefined_leaf"
    "\<not> IsComputed undefined_leaf"
    by (simp_all add: undefined_leaf_def)
  from AttributeValidate_missing_definition [OF h, of "[AttributeName ''d'']" "[]"] h
  show ?thesis unfolding example_request_def by auto
qed

text \<open>
  Claim C7. For a nested attribute of nesting mode \<^verbatim>\<open>Single\<close> whose configuration value
  converts to a null or unknown object, \<^verbatim>\<open>AttributeValidateNestedAttributes\<close> returns
  the diagnostics it was given followed by those of the conversion: no child is
  validated and the skip adds no diagnostic of its own.
\<close>

theorem Single_null_or_unknown_no_descent:
  assumes "GetNestingMode a = NestingModeSingle"
    and "as_ObjectValuable (AttributeConfig req) = Some (ds, ost)"
    and "ost = Null \<or> ost = Unknown"
  shows "AttributeValidateNestedAttributes a req diags = diags @ ds"
proof -
  from assms(1) have "NestedAttribute a \<noteq> None"
    by (auto simp: GetNestingMode_def split: option.splits)
  with assms show ?thesis
    by (subst AttributeValidateNestedAttributes.simps) auto
qed

theorem Single_null_or_unknown_no_descent_witness:
  "GetNestingMode single_nested = NestingModeSingle
   \<and> as_ObjectValuable (Some (Value Null (ToObjectValue [] Null))) = Some ([], Null)
   \<and> AttributeValidateNestedAttributes single_nested
        ((example_request [AttributeName ''p''])
           \<lparr>AttributeConfig := Some (Value Null (ToObjectValue [] Null))\<rparr>) []
      = []"
proof -
  have m: "GetNestingMode single_nested = NestingModeSingle"
    by (simp add: single_nested_def GetNestingMode_def)
  have c: "as_ObjectValuable (AttributeConfig ((example_request [AttributeName ''p''])
           \<lparr>AttributeConfig := Some (Value Null (ToObjectValue [] Null))\<rparr>)) = Some ([], Null)"
    by simp
  from Single_null_or_unknown_no_descent [OF m c, of "[]"] m show ?thesis by simp
qed

text \<open>
  Claim C8. For a required attribute whose extracted configuration value is null,
  \<^verbatim>\<open>AttributeValidate\<close> appends, right after the diagnostics of the lookup, exactly one
  error ``Missing Configuration for Required Attribute'' at the attribute's own path;
  all that follows it is what the attribute's validators and the validation of its
  nested attributes add to the diagnostics that end with this error, and for an
  attribute with neither validators nor nested attributes nothing follows.
\<close>

theorem AttributeValidate_required_null:
  assumes "IsRequired a" and "ExtractedConfig a req = Some v" and "IsNull v"
  shows "let acc = diags @ snd (Config req (AttributePath req))
                     @ [Diagnostic SeverityError (AttributePath req)
                          ''Missing Configuration for Required Attribute''
                          (MissingRequiredDetail (AttributePath req))];
             req1 = req\<lparr>AttributeConfig := Some v\<rparr>
         in AttributeValidate a req diags =
              AttributeValidateNestedAttributes a req1
                (case AttributeWithValidators a of
                   Some validators \<Rightarrow> Validators_range validators req1 acc
                 | None \<Rightarrow> acc)
            \<and> prefix acc (AttributeValidate a req diags)
            \<and> (AttributeWithValidators a = None \<and> NestedAttribute a = None
                 \<longrightarrow> AttributeValidate a req diags = acc)"
proof -
  define acc where "acc = diags @ snd (Config req (AttributePath req))
                     @ [Diagnostic SeverityError (AttributePath req)
                          ''Missing Configuration for Required Attribute''
                          (MissingRequiredDetail (AttributePath req))]"
  define req1 where "req1 = req\<lparr>AttributeConfig := Some v\<rparr>"
  define acc4 where "acc4 =
    (case AttributeWithValidators a of
       Some validators \<Rightarrow> Validators_range validators req1 acc
     | None \<Rightarrow> acc)"
  have eq: "AttributeValidate a req diags = AttributeValidateNestedAttributes a req1 acc4"
    unfolding AttributeValidate_past_lookup [OF assms(2)]
    using assms(1,3)
    by (cases "AttributeWithValidators a")
       (simp_all add: Let_def acc_def req1_def acc4_def AddAttributeError_def)
  have "prefix acc acc4"
    by (cases "AttributeWithValidators a") (simp_all add: acc4_def Validators_range_prefix)
  also have "prefix acc4 (AttributeValidateNestedAttributes a req1 acc4)"
    by (rule validation_prefix(2))
  finally have pre: "prefix acc (AttributeValidate a req diags)" by (simp only: eq)
  have leaf: "AttributeValidate a req diags = acc"
    if "AttributeWithValidators a = None" "NestedAttribute a = None"
    unfolding eq using that
    by (subst AttributeValidateNestedAttributes.simps) (simp add: acc4_def)
  from eq pre leaf show ?thesis
    unfolding Let_def acc_def [symmetric] req1_def [symmetric] acc4_def [symmetric]
    by blast
qed

theorem AttributeValidate_required_null_witness:
  "IsRequired required_leaf
   \<and> ExtractedConfig required_leaf (example_request [AttributeName ''r''])
       = Some (Value Null NotCollection)
   \<and> AttributeValidate required_leaf (example_request [AttributeName ''r'']) []
       = [Diagnostic SeverityError [AttributeName ''r'']
            ''Missing Configuration for Required Attribute''
            (MissingRequiredDetail [AttributeName ''r''])]"
proof -
  have r: "IsRequired required_leaf" by (simp add: required_leaf_def)
  have x: "ExtractedConfig required_leaf (example_request [AttributeName ''r''])
       = Some (Value Null NotCollection)"
    by (simp add: ExtractedConfig_def required_leaf_def example_request_def example_config_def
          HasError_def GetAttributes_def)
  have n: "IsNull (Value Null NotCollection)" by simp
  have l: "AttributeWithValidators required_leaf = None \<and> NestedAttribute required_leaf = None"
    by (simp add: required_leaf_def)
  from AttributeValidate_required_null [OF r x n, of "[]"] l
  have "AttributeValidate required_leaf (example_request [AttributeName ''r'']) []
       = [] @ snd (Config (example_request [AttributeName ''r''])
                     (AttributePath (example_request [AttributeName ''r''])))
          @ [Diagnostic SeverityError (AttributePath (example_request [AttributeName ''r'']))
            ''Missing Configuration for Required Attribute''
            (MissingRequiredDetail (AttributePath (example_request [AttributeName ''r''])))]"
    unfolding Let_def by blast
  then have "AttributeValidate required_leaf (example_request [AttributeName ''r'']) []
       = [Diagnostic SeverityError [AttributeName ''r'']
            ''Missing Configuration for Required Attribute''
            (MissingRequiredDetail [AttributeName ''r''])]"
    by (simp add: example_request_def example_config_def)
  with r x show ?thesis by blast
qed

text \<open>
  Claim C10. The deprecation message of an attribute changes the result of
  \<^verbatim>\<open>AttributeValidate\<close> in one way only: the warning ``Attribute Deprecated'' is appended
  at the end, at the attribute's path, if and only if the message is not empty and the
  configuration value was extracted and is neither null nor unknown.
\<close>

theorem AttributeValidate_deprecation_warning:
  "AttributeValidate (Attribute tf ty rq op cp msg vs ne) req diags =
     AttributeValidate (Attribute tf ty rq op cp [] vs ne) req diags
     @ (case ExtractedConfig (Attribute tf ty rq op cp msg vs ne) req of
          Some v \<Rightarrow>
            if msg \<noteq> [] \<and> \<not> IsNull v \<and> \<not> IsUnknown v then
              [Diagnostic SeverityWarning (AttributePath req) ''Attribute Deprecated'' [Text msg]]
            else []
        | None \<Rightarrow> [])"
proof -
  let ?a = "Attribute tf ty rq op cp msg vs ne" and ?b = "Attribute tf ty rq op cp [] vs ne"
  have ex: "ExtractedConfig ?b req = ExtractedConfig ?a req"
    by (simp add: ExtractedConfig_def GetAttributes_def GetNestingMode_def)
  have nested: "AttributeValidateNestedAttributes ?b r d = AttributeValidateNestedAttributes ?a r d"
    for r d
  proof -
    have g: "GetAttributes ?b = GetAttributes ?a" "GetNestingMode ?b = GetNestingMode ?a"
      "NestedAttribute ?b = NestedAttribute ?a" "is_tfsdk_Attribute ?b = is_tfsdk_Attribute ?a"
      by (simp_all add: GetAttributes_def GetNestingMode_def)
    show ?thesis
      unfolding AttributeValidateNestedAttributes.simps [of ?a]
        AttributeValidateNestedAttributes.simps [of ?b] g
      by (rule refl)
  qed
  show ?thesis
  proof (cases "ExtractedConfig ?a req")
    case None
    with ex have "ExtractedConfig ?b req = None" by simp
    from AttributeValidate_not_past_lookup [OF None]
      AttributeValidate_not_past_lookup [OF this] None
    show ?thesis by (simp add: GetAttributes_def GetNestingMode_def)
  next
    case (Some v)
    with ex have "ExtractedConfig ?b req = Some v" by simp
    from AttributeValidate_past_lookup [OF Some]
      AttributeValidate_past_lookup [OF this] Some
    show ?thesis by (simp add: Let_def nested AddAttributeWarning_def)
  qed
qed

theorem AttributeValidate_deprecation_warning_witness:
  "AttributeValidate deprecated_leaf (example_request [AttributeName ''d'']) []
     = [Diagnostic SeverityWarning [AttributeName ''d''] ''Attribute Deprecated'' [Text ''use y'']]
   \<and> AttributeValidate deprecated_leaf (example_request [AttributeName ''n'']) [] = []"
proof -
  have base: "AttributeValidate (Attribute False StringType False True False [] None None)
      (example_request p) [] = []" for p
    by (simp add: AttributeValidate.simps AttributeValidateNestedAttributes.simps
          example_request_def example_config_def HasError_def GetAttributes_def Let_def
          split: prod.splits)
  have x1: "ExtractedConfig deprecated_leaf (example_request [AttributeName ''d''])
      = Some (Value Known NotCollection)"
    by (simp add: ExtractedConfig_def deprecated_leaf_def example_request_def example_config_def
          HasError_def GetAttributes_def)
  have x2: "ExtractedConfig deprecated_leaf (example_request [AttributeName ''n''])
      = Some (Value Null NotCollection)"
    by (simp add: ExtractedConfig_def deprecated_leaf_def example_request_def example_config_def
          HasError_def GetAttributes_def)
  from AttributeValidate_deprecation_warning
    [of False StringType False True False "''use y''" None None
       "example_request [AttributeName ''d'']" "[]"]
    AttributeValidate_deprecation_warning
    [of False StringType False True False "''use y''" None None
       "example_request [AttributeName ''n'']" "[]"]
    base x1 x2
  show ?thesis
    by (simp add: deprecated_leaf_def example_request_def)
qed

text \<open>
  Claim C1. Whether \<^verbatim>\<open>AttributeValidateNestedAttributes\<close> descends into a nested
  attribute whose own conversion succeeded should not depend on the errors of
  previously validated siblings. The code tests \<^verbatim>\<open>resp.Diagnostics.HasError()\<close>, the
  whole accumulator, where \<^verbatim>\<open>AttributeValidate\<close> tests only the new diagnostics
  (\<^verbatim>\<open>diags.HasError()\<close>). On the list-nested attribute of the example, whose list
  converts without diagnostics, the descent reports the missing required child when
  the accumulator is empty and is skipped when the accumulator holds the error of a
  sibling; so the single-nested parent reports the error of the list's child only when
  the list happens to be visited before its failing sibling.
\<close>

theorem nested_descent_stops_on_sibling_error:
  "AttributeValidateNestedAttributes list_nested
      ((example_request [AttributeName ''p'', AttributeName ''b''])
         \<lparr>AttributeConfig := Some (Value Known (ToListValue [] [Value Known (ToObjectValue [] Known)]))\<rparr>)
      []
     = [MissingRequired [AttributeName ''p'', AttributeName ''b'', ElementKeyInt 0, AttributeName ''inner'']]
   \<and> AttributeValidateNestedAttributes list_nested
      ((example_request [AttributeName ''p'', AttributeName ''b''])
         \<lparr>AttributeConfig := Some (Value Known (ToListValue [] [Value Known (ToObjectValue [] Known)]))\<rparr>)
      [MissingRequired [AttributeName ''p'', AttributeName ''a'']]
     = [MissingRequired [AttributeName ''p'', AttributeName ''a'']]
   \<and> AttributeValidate single_nested (example_request [AttributeName ''p'']) []
     = [MissingRequired [AttributeName ''p'', AttributeName ''a'']]
   \<and> AttributeValidate single_nested_swapped (example_request [AttributeName ''p'']) []
     = [MissingRequired [AttributeName ''p'', AttributeName ''b'', ElementKeyInt 0, AttributeName ''inner''],
        MissingRequired [AttributeName ''p'', AttributeName ''a'']]"
  by (simp add: AttributeValidate.simps AttributeValidateNestedAttributes.simps
        example_request_def example_config_def HasError_def GetAttributes_def GetNestingMode_def
        Let_def AddAttributeError_def AddAttributeWarning_def AtName_def AtListIndex_def
        required_leaf_def list_nested_def single_nested_def single_nested_swapped_def
        MissingRequired_def)

end
